theory Spec2Isabelle
  imports Main "HOL-Library.Word"
begin

section \<open>Strings and errors\<close>

text \<open>
  Go strings are byte sequences: \<open>string\<close> (a \<open>char list\<close>) models them byte for byte.
  A Go \<open>error\<close> is modelled by the text its \<open>Error()\<close> method returns; \<open>nil\<close> is
  \<open>None\<close>.
\<close>

type_synonym error = string

definition ErrHelp :: error where
  "ErrHelp = ''mandy: help requested''"

definition ErrNilMain :: error where
  "ErrNilMain = ''mandy: attempted to Execute a command with no Main function''"

definition errParse :: error where
  "errParse = ''parse error''"

definition errRange :: error where
  "errRange = ''value out of range''"

text \<open>\<open>strings.HasPrefix\<close>, \<open>strings.TrimPrefix\<close>, \<open>strings.Contains\<close> for the one-byte
  separator \<open>=\<close>, and \<open>strings.SplitN(s, "=", 2)\<close> on a string that contains \<open>=\<close>.\<close>

definition HasPrefix :: "string \<Rightarrow> string \<Rightarrow> bool" where
  "HasPrefix s p = (take (length p) s = p)"

definition TrimPrefix :: "string \<Rightarrow> string \<Rightarrow> string" where
  "TrimPrefix s p = (if HasPrefix s p then drop (length p) s else s)"

definition ContainsEq :: "string \<Rightarrow> bool" where
  "ContainsEq s = (CHR ''='' \<in> set s)"

definition SplitEq :: "string \<Rightarrow> string \<times> string" where
  "SplitEq s = (takeWhile (\<lambda>c. c \<noteq> CHR ''='') s, tl (dropWhile (\<lambda>c. c \<noteq> CHR ''='') s))"

section \<open>The conversions of the Go standard library\<close>

text \<open>
  \<open>strconv\<close> is not part of the repository; the value boxes call it. The definitions of
  this section follow the documented behaviour of \<open>strconv.ParseBool\<close>,
  \<open>strconv.ParseUint\<close>, \<open>strconv.ParseInt\<close> (base 0), \<open>strconv.FormatBool\<close> and the
  decimal \<open>strconv.FormatInt\<close>/\<open>FormatUint\<close>/\<open>Itoa\<close>. A failing conversion returns a value
  together with the error, as the Go functions do.
\<close>

datatype NumErr = ErrSyntax | ErrRange

definition ParseBool :: "string \<Rightarrow> bool \<times> NumErr option" where
  "ParseBool str =
     (if str \<in> set [''1'', ''t'', ''T'', ''true'', ''TRUE'', ''True''] then (True, None)
      else if str \<in> set [''0'', ''f'', ''F'', ''false'', ''FALSE'', ''False''] then (False, None)
      else (False, Some ErrSyntax))"

definition FormatBool :: "bool \<Rightarrow> string" where
  "FormatBool b = (if b then ''true'' else ''false'')"

definition lower :: "nat \<Rightarrow> nat" where
  "lower c = (if (c div 32) mod 2 = 0 then c + 32 else c)"

text \<open>The digit loop of \<open>ParseUint\<close>: \<open>n\<close> is the value so far, \<open>us\<close> whether an
  underscore was seen. The result is the value, the error and the underscore bit.\<close>

fun digitLoop :: "bool \<Rightarrow> nat \<Rightarrow> nat \<Rightarrow> nat list \<Rightarrow> nat \<Rightarrow> bool \<Rightarrow> nat \<times> NumErr option \<times> bool" where
  "digitLoop base0 base maxVal [] n us = (n, None, us)"
| "digitLoop base0 base maxVal (c # cs) n us =
     (if c = 95 \<and> base0 then digitLoop base0 base maxVal cs n True
      else if \<not> ((48 \<le> c \<and> c \<le> 57) \<or> (97 \<le> lower c \<and> lower c \<le> 122)) then (0, Some ErrSyntax, us)
      else let d = (if 48 \<le> c \<and> c \<le> 57 then c - 48 else lower c - 97 + 10) in
        if d \<ge> base then (0, Some ErrSyntax, us)
        else if n \<ge> (2 ^ 64 - 1) div base + 1 then (maxVal, Some ErrRange, us)
        else if n * base + d > maxVal then (maxVal, Some ErrRange, us)
        else digitLoop base0 base maxVal cs (n * base + d) us)"

text \<open>\<open>underscoreOK\<close>: underscores may only separate digits (the base prefix counts as a
  digit). \<open>saw\<close> is the last character class seen: 0 start, 1 digit, 2 underscore, 3 other.\<close>

fun underscoreScan :: "bool \<Rightarrow> nat \<Rightarrow> nat list \<Rightarrow> bool" where
  "underscoreScan hex saw [] = (saw \<noteq> 2)"
| "underscoreScan hex saw (c # cs) =
     (if (48 \<le> c \<and> c \<le> 57) \<or> (hex \<and> 97 \<le> lower c \<and> lower c \<le> 102) then underscoreScan hex 1 cs
      else if c = 95 then (if saw \<noteq> 1 then False else underscoreScan hex 2 cs)
      else if saw = 2 then False
      else underscoreScan hex 3 cs)"

definition underscoreOK :: "nat list \<Rightarrow> bool" where
  "underscoreOK s0 =
     (let s = (if length s0 \<ge> 1 \<and> (hd s0 = 45 \<or> hd s0 = 43) then tl s0 else s0) in
      if length s \<ge> 2 \<and> hd s = 48 \<and> lower (s ! 1) \<in> {98, 111, 120}
      then underscoreScan (lower (s ! 1) = 120) 1 (drop 2 s)
      else underscoreScan False 0 s)"

definition ParseUintBytes :: "nat list \<Rightarrow> nat \<Rightarrow> nat \<times> NumErr option" where
  "ParseUintBytes s bitSize =
     (if s = [] then (0, Some ErrSyntax)
      else let (base, ds) =
               (if hd s = 48 then
                  (if length s \<ge> 3 \<and> lower (s ! 1) = 98 then (2, drop 2 s)
                   else if length s \<ge> 3 \<and> lower (s ! 1) = 111 then (8, drop 2 s)
                   else if length s \<ge> 3 \<and> lower (s ! 1) = 120 then (16, drop 2 s)
                   else (8, drop 1 s))
                else (10, s)) in
           (case digitLoop True base (2 ^ bitSize - 1) ds 0 False of
              (n, Some e, us) \<Rightarrow> (n, Some e)
            | (n, None, us) \<Rightarrow> if us \<and> \<not> underscoreOK s then (0, Some ErrSyntax) else (n, None)))"

definition ParseUint :: "string \<Rightarrow> nat \<Rightarrow> nat \<times> NumErr option" where
  "ParseUint s bitSize = ParseUintBytes (map of_char s) bitSize"

definition ParseInt :: "string \<Rightarrow> nat \<Rightarrow> int \<times> NumErr option" where
  "ParseInt s0 bitSize =
     (if s0 = [] then (0, Some ErrSyntax)
      else let neg = (hd s0 = CHR ''-'');
               s = (if hd s0 = CHR ''+'' \<or> hd s0 = CHR ''-'' then tl s0 else s0);
               cutoff = (2::nat) ^ (bitSize - 1) in
        (case ParseUintBytes (map of_char s) bitSize of
           (un, Some ErrSyntax) \<Rightarrow> (0, Some ErrSyntax)
         | (un, r) \<Rightarrow>
             if \<not> neg \<and> un \<ge> cutoff then (int cutoff - 1, Some ErrRange)
             else if neg \<and> un > cutoff then (- int cutoff, Some ErrRange)
             else (if neg then - int un else int un, None)))"

text \<open>Decimal rendering.\<close>

function FormatUint :: "nat \<Rightarrow> string" where
  "FormatUint n = (if n < 10 then [''0123456789'' ! n] else FormatUint (n div 10) @ [''0123456789'' ! (n mod 10)])"
  by pat_completeness auto
termination
  by (relation "measure id") auto

declare FormatUint.simps [simp del]

definition FormatInt :: "int \<Rightarrow> string" where
  "FormatInt i = (if i < 0 then CHR ''-'' # FormatUint (nat (- i)) else FormatUint (nat i))"

definition IntSize :: nat where
  "IntSize = 64"


section \<open>Value boxes (value.go)\<close>

text \<open>
  A value box is a pointer to the variable that holds the flag's value; the model keeps the
  value inside the box. Go's \<open>int\<close> and \<open>uint\<close> are 64 bits wide (\<open>strconv.IntSize\<close>).
  A function box holds the callback, which returns an error or \<open>nil\<close>. The
  \<open>float64\<close> and \<open>time.Duration\<close> boxes are left out: their conversions are floating
  point and the \<open>time\<close> package.
\<close>

datatype Value =
    boolValue bool
  | intValue "64 word"
  | int64Value "64 word"
  | uintValue "64 word"
  | uint64Value "64 word"
  | stringValue string
  | funcValue "string \<Rightarrow> error option"

fun numError :: "NumErr \<Rightarrow> error" where
  "numError ErrSyntax = errParse"
| "numError ErrRange = errRange"

text \<open>\<open>Set\<close> stores what the conversion returned, then returns the error.\<close>

fun Value_Set :: "Value \<Rightarrow> string \<Rightarrow> Value \<times> error option" where
  "Value_Set (boolValue b) s =
     (case ParseBool s of (v, err) \<Rightarrow> (boolValue v, map_option (\<lambda>e. errParse) err))"
| "Value_Set (intValue i) s =
     (case ParseInt s IntSize of (v, err) \<Rightarrow> (intValue (word_of_int v), map_option numError err))"
| "Value_Set (int64Value i) s =
     (case ParseInt s 64 of (v, err) \<Rightarrow> (int64Value (word_of_int v), map_option numError err))"
| "Value_Set (uintValue i) s =
     (case ParseUint s IntSize of (v, err) \<Rightarrow> (uintValue (of_nat v), map_option numError err))"
| "Value_Set (uint64Value i) s =
     (case ParseUint s 64 of (v, err) \<Rightarrow> (uint64Value (of_nat v), map_option numError err))"
| "Value_Set (stringValue x) s = (stringValue s, None)"
| "Value_Set (funcValue f) s = (funcValue f, f s)"

fun Value_String :: "Value \<Rightarrow> string" where
  "Value_String (boolValue b) = FormatBool b"
| "Value_String (intValue i) = FormatInt (sint i)"
| "Value_String (int64Value i) = FormatInt (sint i)"
| "Value_String (uintValue i) = FormatUint (unat i)"
| "Value_String (uint64Value i) = FormatUint (unat i)"
| "Value_String (stringValue x) = x"
| "Value_String (funcValue f) = []"

fun Value_IsBool :: "Value \<Rightarrow> bool" where
  "Value_IsBool (boolValue b) = True"
| "Value_IsBool v = False"

text \<open>
  The test \<open>f, ok := flag.Value.Get().(boolFlag); f != nil && ok\<close> of \<open>parseOne\<close>.
  \<open>Get\<close> returns the native value: a \<open>bool\<close>, an integer or a \<open>string\<close>, none of which
  has the methods of \<open>boolFlag\<close>, so the assertion fails for them. The function box
  returns itself, a \<open>funcValue\<close>, which has \<open>String\<close>, \<open>Set\<close> and \<open>IsBool\<close>: the
  assertion succeeds.
\<close>

fun Get_is_boolFlag :: "Value \<Rightarrow> bool" where
  "Get_is_boolFlag (funcValue f) = True"
| "Get_is_boolFlag v = False"

section \<open>Error policies (errors.go)\<close>

type_synonym ErrorPolicy = "8 word"

definition ContinueOnError :: ErrorPolicy where "ContinueOnError = 0"
definition ExitOnError :: ErrorPolicy where "ExitOnError = 1"
definition PanicOnError :: ErrorPolicy where "PanicOnError = 2"
definition LogOnError :: ErrorPolicy where "LogOnError = 3"

section \<open>Flags and commands\<close>

record Flag =
  Name :: string
  Description :: string
  DefValue :: string
  Short :: bool
  Value :: Value

text \<open>
  Commands live in a heap and refer to each other by address (\<open>parent\<close>, \<open>children\<close>).
  \<open>formal\<close> is a Go map; the model keeps it as an association list whose order stands
  for the order in which a \<open>range\<close> loop visits it. \<open>actual\<close> maps names to the same flag
  pointers as \<open>formal\<close>, so the set of its keys is all it holds. \<open>UsageSet\<close> says
  whether the \<open>Usage\<close> field is non-nil.
\<close>

record Command =
  parent :: "nat option"
  actual :: "string set"
  formal :: "(string \<times> Flag) list"
  UsageSet :: bool
  Format :: string
  name :: string
  URL :: string
  children :: "nat list"
  args :: "string list"
  aliases :: "string list"
  parsed :: bool
  errorPolicy :: ErrorPolicy
  lambda :: bool

datatype 'a outcome = Return 'a | Panic string

definition quote :: "string \<Rightarrow> string" where
  "quote s = [CHR 0x22] @ s @ [CHR 0x22]"

text \<open>\<open>accepts\<close>: the first key, in iteration order, that the name matches. \<open>k[:1]\<close>
  panics on an empty key, and is only evaluated for a short-eligible flag.\<close>

fun acceptsLoop :: "(string \<times> Flag) list \<Rightarrow> string \<Rightarrow> string outcome" where
  "acceptsLoop [] nm = Return []"
| "acceptsLoop ((k, v) # kvs) nm =
     (if Short v \<and> k = [] then Panic ''slice bounds out of range [:1] with length 0''
      else if (Short v \<and> nm = take 1 k) \<or> nm = k then Return k
      else acceptsLoop kvs nm)"

definition accepts :: "Command \<Rightarrow> string \<Rightarrow> string outcome" where
  "accepts c nm = acceptsLoop (formal c) nm"

definition setValue :: "string \<Rightarrow> Value \<Rightarrow> (string \<times> Flag) list \<Rightarrow> (string \<times> Flag) list" where
  "setValue k v kvs = map (\<lambda>(k', f). if k' = k then (k', f\<lparr>Value := v\<rparr>) else (k', f)) kvs"

text \<open>\<open>Command.Set\<close>: the one place that records a flag in \<open>actual\<close>.\<close>

definition Command_Set :: "Command \<Rightarrow> string \<Rightarrow> string \<Rightarrow> Command \<times> error option" where
  "Command_Set c nm val =
     (case map_of (formal c) nm of
        None \<Rightarrow> (c, Some (''no such flag -'' @ nm))
      | Some flag \<Rightarrow>
          (case Value_Set (Value flag) val of
             (v, Some err) \<Rightarrow> (c\<lparr>formal := setValue nm v (formal c)\<rparr>, Some err)
           | (v, None) \<Rightarrow>
               (c\<lparr>formal := setValue nm v (formal c), actual := insert nm (actual c)\<rparr>, None)))"

text \<open>The loop of \<open>Var\<close> over the registered flags, run when the new flag is
  short-eligible. It returns the flags, with the help flag's short-eligibility revoked
  where it collided.\<close>

fun collisions :: "string \<Rightarrow> Flag \<Rightarrow> (string \<times> Flag) list \<Rightarrow> (string \<times> Flag) list outcome" where
  "collisions H flag [] = Return []"
| "collisions H flag ((k, other) # kvs) =
     (if Name other \<noteq> Name flag then
        (if Name other = [] \<or> Name flag = [] then Panic ''index out of range [0] with length 0''
         else if hd (Name other) = hd (Name flag) \<and> Short other then
           (if H = Name other then
              (case collisions H flag kvs of
                 Return kvs' \<Rightarrow> Return ((k, other\<lparr>Short := False\<rparr>) # kvs')
               | Panic m \<Rightarrow> Panic m)
            else Panic (''Short name collision between '' @ quote (Name flag) @ '' and ''
                        @ quote (Name other) @ '' flags''))
         else (case collisions H flag kvs of
                 Return kvs' \<Rightarrow> Return ((k, other) # kvs')
               | Panic m \<Rightarrow> Panic m))
      else (case collisions H flag kvs of
              Return kvs' \<Rightarrow> Return ((k, other) # kvs')
            | Panic m \<Rightarrow> Panic m))"

text \<open>\<open>Var\<close>; \<open>H\<close> is the package variable \<open>HelpName\<close>. The result is the command
  with the new flag registered under \<open>nm\<close>, or the panic with its message (\<open>%q\<close> is
  rendered as the name between double quotes). What \<open>sprintf\<close> writes to the output
  before a panic is not kept.\<close>

definition Var :: "string \<Rightarrow> Command \<Rightarrow> Value \<Rightarrow> string \<Rightarrow> string \<Rightarrow> bool \<Rightarrow> Command outcome" where
  "Var H c val nm usage short =
     (if HasPrefix nm ''-'' then Panic (''flag '' @ quote nm @ '' begins with -'')
      else if ContainsEq nm then Panic (''flag '' @ quote nm @ '' contains ='')
      else let flag = \<lparr>Name = nm, Description = usage, DefValue = Value_String val,
                       Short = short, Value = val\<rparr> in
        if map_of (formal c) nm \<noteq> None then
          Panic (if name c = [] then ''flag redefined: '' @ nm
                 else name c @ '' flag redefined: '' @ nm)
        else if Short flag then
          (case collisions H flag (formal c) of
             Panic m \<Rightarrow> Panic m
           | Return kvs \<Rightarrow> Return (c\<lparr>formal := kvs @ [(nm, flag)]\<rparr>))
        else Return (c\<lparr>formal := formal c @ [(nm, flag)]\<rparr>))"

definition Command_Bool :: "string \<Rightarrow> Command \<Rightarrow> string \<Rightarrow> bool \<Rightarrow> string \<Rightarrow> bool \<Rightarrow> Command outcome" where
  "Command_Bool H c nm val usage short = Var H c (boolValue val) nm usage short"

definition Command_Int :: "string \<Rightarrow> Command \<Rightarrow> string \<Rightarrow> 64 word \<Rightarrow> string \<Rightarrow> bool \<Rightarrow> Command outcome" where
  "Command_Int H c nm val usage short = Var H c (intValue val) nm usage short"

text \<open>\<open>NewCommand\<close>. \<open>EnvUrl\<close> reads the environment and may panic (\<open>but.Must\<close>); its
  result for the name is the parameter \<open>url\<close>.\<close>

definition NewCommand :: "string \<Rightarrow> string outcome \<Rightarrow> string \<Rightarrow> ErrorPolicy \<Rightarrow> Command outcome" where
  "NewCommand H url nm policy =
     (case url of
        Panic m \<Rightarrow> Panic m
      | Return u \<Rightarrow>
          let c = \<lparr>parent = None, actual = {}, formal = [], UsageSet = False,
                   Format = ''%s [options] [args...]'', name = nm, URL = u, children = [],
                   args = [], aliases = [], parsed = False, errorPolicy = policy,
                   lambda = False\<rparr> in
          if nm \<noteq> H then
            (case Var H c (boolValue False) H ''print this message'' True of
               Panic m \<Rightarrow> Panic m
             | Return c' \<Rightarrow> Return (c'\<lparr>UsageSet := True\<rparr>))
          else Return c)"

section \<open>Ranging over a string\<close>

text \<open>
  \<open>for i, r := range s\<close> visits the UTF-8 sequences of \<open>s\<close>: \<open>i\<close> is the byte index
  where the sequence starts and \<open>string(r)\<close> its bytes; a byte that starts no valid
  sequence is visited alone, as U+FFFD. \<open>runeWidth\<close> is the length of the valid sequence
  at the head of the bytes, 0 when there is none (\<open>utf8.DecodeRuneInString\<close>).
\<close>

definition cont :: "nat \<Rightarrow> nat \<Rightarrow> nat \<Rightarrow> bool" where
  "cont lo hi b = (lo \<le> b \<and> b \<le> hi)"

definition runeWidth :: "nat list \<Rightarrow> nat" where
  "runeWidth bs =
     (case bs of
        [] \<Rightarrow> 0
      | b0 # r \<Rightarrow>
          if b0 < 128 then 1
          else if b0 < 194 \<or> 244 < b0 then 0
          else if b0 < 224 then (if length r \<ge> 1 \<and> cont 128 191 (r ! 0) then 2 else 0)
          else if b0 < 240 then
            (if length r \<ge> 2
                \<and> cont (if b0 = 224 then 160 else 128) (if b0 = 237 then 159 else 191) (r ! 0)
                \<and> cont 128 191 (r ! 1) then 3 else 0)
          else
            (if length r \<ge> 3
                \<and> cont (if b0 = 240 then 144 else 128) (if b0 = 244 then 143 else 191) (r ! 0)
                \<and> cont 128 191 (r ! 1) \<and> cont 128 191 (r ! 2) then 4 else 0))"

function runesFrom :: "nat \<Rightarrow> string \<Rightarrow> (nat \<times> string) list" where
  "runesFrom i s =
     (if s = [] then []
      else let w = runeWidth (map of_char s) in
        if w = 0 then (i, [CHR 0xEF, CHR 0xBF, CHR 0xBD]) # runesFrom (i + 1) (drop 1 s)
        else (i, take w s) # runesFrom (i + w) (drop w s))"
  by pat_completeness auto
termination
  by (relation "measure (\<lambda>(i, s). length s)") auto

declare runesFrom.simps [simp del]

definition runes :: "string \<Rightarrow> (nat \<times> string) list" where
  "runes s = runesFrom 0 s"

section \<open>The dispatcher: parseOne\<close>

text \<open>
  \<open>parseOne\<close> returns \<open>(child, seen, err)\<close>; the model returns the command as it
  leaves it as well. A run-time panic inside (from \<open>accepts\<close>) is \<open>PanicRes\<close>.
\<close>

datatype pres = Res "nat option" bool "error option" | PanicRes string

text \<open>The loop over the characters of a single-dash token; \<open>n\<close> is \<open>len(flagNames)\<close>.\<close>

fun shortFlags :: "Command \<Rightarrow> (nat \<times> string) list \<Rightarrow> nat \<Rightarrow> Command \<times> pres" where
  "shortFlags c [] n = (c, Res None True None)"
| "shortFlags c ((i, flagName) # rs) n =
     (case accepts c flagName of
        Panic m \<Rightarrow> (c, PanicRes m)
      | Return k \<Rightarrow>
          (case map_of (formal c) k of
             None \<Rightarrow> (c, Res None False (Some (''unknown flag: '' @ flagName)))
           | Some flag \<Rightarrow>
               if Value_IsBool (Value flag) then
                 shortFlags (c\<lparr>formal := setValue k (fst (Value_Set (Value flag) ''true'')) (formal c)\<rparr>) rs n
               else if int i = int n - 1 then
                 (if args c = [] then
                    (c, Res None False (Some (''missing value for non-boolean flag: '' @ flagName)))
                  else shortFlags
                         (c\<lparr>formal := setValue k (fst (Value_Set (Value flag) (hd (args c)))) (formal c),
                            args := tl (args c)\<rparr>) rs n)
               else (c, Res None False (Some (''unexpected value for boolean flag: '' @ flagName)))))"

definition parseOne :: "Command \<Rightarrow> Command \<times> pres" where
  "parseOne c0 =
     (if args c0 = [] then (c0, Res None False None)
      else let arg = hd (args c0); c = c0\<lparr>args := tl (args c0)\<rparr> in
        if ContainsEq arg then
          (case SplitEq arg of (flagName, flagValue) \<Rightarrow>
             (case accepts c flagName of
                Panic m \<Rightarrow> (c, PanicRes m)
              | Return k \<Rightarrow>
                  (case map_of (formal c) k of
                     None \<Rightarrow> (c, Res None False (Some (''unknown flag: '' @ flagName)))
                   | Some flag \<Rightarrow>
                       if \<not> Value_IsBool (Value flag) then
                         (case Value_Set (Value flag) flagValue of
                            (v, Some err) \<Rightarrow>
                              (c\<lparr>formal := setValue k v (formal c)\<rparr>,
                               Res None False
                                 (Some (''invalid value for flag '' @ flagName @ '': '' @ flagValue)))
                          | (v, None) \<Rightarrow> (c\<lparr>formal := setValue k v (formal c)\<rparr>, Res None True None))
                       else (c, Res None False
                                  (Some (''unexpected value for boolean flag: '' @ flagName))))))
        else if HasPrefix arg ''--'' then
          (let flagName = TrimPrefix arg ''--'' in
             case accepts c flagName of
               Panic m \<Rightarrow> (c, PanicRes m)
             | Return k \<Rightarrow>
                 (case map_of (formal c) k of
                    None \<Rightarrow> (c, Res None False (Some (''unknown flag: '' @ flagName)))
                  | Some flag \<Rightarrow>
                      if Get_is_boolFlag (Value flag) then
                        (c\<lparr>formal := setValue k (fst (Value_Set (Value flag) ''true'')) (formal c)\<rparr>,
                         Res None True None)
                      else (c, Res None False
                                 (Some (''missing value for non-boolean flag: '' @ flagName)))))
        else if HasPrefix arg ''-'' then
          (let flagNames = TrimPrefix arg ''-'' in shortFlags c (runes flagNames) (length flagNames))
        else (c, Res None False None))"

text \<open>Every decision that is a flag or an error takes at least one token, and none
  selects a child.\<close>

lemma shortFlags_args: "shortFlags c rs n = (c', r) \<Longrightarrow> length (args c') \<le> length (args c)"
proof (induction c rs n arbitrary: c' r rule: shortFlags.induct)
  case (1 c n)
  then show ?case by simp
next
  case (2 c i flagName rs n)
  show ?case
  proof (cases "accepts c flagName")
    case (Panic m)
    with 2 show ?thesis by simp
  next
    case (Return k)
    show ?thesis
    proof (cases "map_of (formal c) k")
      case None
      with 2 Return show ?thesis by simp
    next
      case (Some flag)
      show ?thesis
      proof (cases "Value_IsBool (Value flag)")
        case True
        from "2.IH"(1)[OF Return Some True] "2.prems" Return Some True
        show ?thesis by simp
      next
        case False
        show ?thesis
        proof (cases "int i = int n - 1")
          case l: True
          show ?thesis
          proof (cases "args c = []")
            case True
            with 2 Return Some False l show ?thesis by simp
          next
            case ne: False
            from "2.IH"(2)[OF Return Some False l ne] "2.prems" Return Some False l ne
            have "length (args c') \<le> length (tl (args c))" by simp
            then show ?thesis by simp
          qed
        next
          case nl: False
          with 2 Return Some False show ?thesis by simp
        qed
      qed
    qed
  qed
qed

lemma parseOne_consumes:
  "parseOne c = (c', Res child seen err) \<Longrightarrow> seen \<or> err \<noteq> None \<Longrightarrow> length (args c') < length (args c)"
  apply (cases "args c")
   apply (simp add: parseOne_def)
  apply (auto simp: parseOne_def Let_def split: if_splits prod.splits outcome.splits option.splits dest!: shortFlags_args)
  done

lemma shortFlags_no_child: "shortFlags c rs n = (c', Res child seen err) \<Longrightarrow> child = None"
  by (induction c rs n rule: shortFlags.induct)
     (auto split: outcome.splits option.splits if_splits)

lemma parseOne_no_child: "parseOne c = (c', Res child seen err) \<Longrightarrow> child = None"
  by (auto simp: parseOne_def Let_def split: if_splits prod.splits outcome.splits option.splits
           dest: shortFlags_no_child)

section \<open>The error gate and Parse\<close>

text \<open>\<open>Handle\<close> returns the lines it writes to standard error and how control goes
  on.\<close>

datatype ctl = Normal | Panics string | Exits nat

definition Handle :: "Command \<Rightarrow> error option \<Rightarrow> string list \<times> ctl" where
  "Handle c err =
     (case err of
        None \<Rightarrow> ([], Normal)
      | Some e \<Rightarrow>
          if errorPolicy c = ContinueOnError then ([e], Normal)
          else if errorPolicy c = ExitOnError then ([e], Exits 1)
          else if errorPolicy c = PanicOnError then ([], Panics e)
          else ([], Panics ''unrecognized error policy''))"

text \<open>
  The loop of \<open>Parse\<close>. It ends when \<open>parseOne\<close> reports neither a flag nor an error,
  when it names a child, or when \<open>Handle\<close> does not return. The result is the command,
  the lines written, the child to descend into, and how control goes on.
\<close>

function parseLoop :: "Command \<Rightarrow> string list \<Rightarrow> Command \<times> string list \<times> nat option \<times> ctl" where
  "parseLoop c log =
     (case parseOne c of
        (c', PanicRes m) \<Rightarrow> (c', log, None, Panics m)
      | (c', Res child seen err) \<Rightarrow>
          if seen then parseLoop c' log
          else if child \<noteq> None then (c', log, child, Normal)
          else if err = None then (c', log, None, Normal)
          else (case Handle c' err of
                  (out, Normal) \<Rightarrow> parseLoop c' (log @ out)
                | (out, k) \<Rightarrow> (c', log @ out, None, k)))"
  by pat_completeness auto
termination
  by (relation "measure (\<lambda>(c, log). length (args c))") (auto dest: parseOne_consumes [OF sym])

declare parseLoop.simps [simp del]

lemma parseLoop_no_child: "fst (snd (snd (parseLoop c log))) = None"
proof (induction c log rule: parseLoop.induct)
  case (1 c log)
  show ?case
    apply (subst parseLoop.simps)
    using 1 by (auto split: prod.splits pres.splits ctl.splits dest: parseOne_no_child)
qed


lemma parseLoop_some_child: "(c', lg, Some ch, k) = parseLoop c l \<Longrightarrow> False"
  using parseLoop_no_child [of c l] by (metis fst_conv snd_conv option.distinct(1))

text \<open>
  The heap of commands; an address is an index into it. \<open>Parse\<close> seeds the tokens
  from the parent's (when there is one), from its arguments, or from \<open>os.Args[1:]\<close>;
  \<open>osArgs\<close> is \<open>os.Args\<close>. The deferred \<open>setparsed\<close> runs on return and on panic,
  not on \<open>os.Exit\<close>.
\<close>

type_synonym heap = "Command list"

definition deref :: "heap \<Rightarrow> nat \<Rightarrow> Command option" where
  "deref h a = (if a < length h then Some (h ! a) else None)"

definition seedArgs :: "string list \<Rightarrow> heap \<Rightarrow> Command \<Rightarrow> string list \<Rightarrow> string list outcome" where
  "seedArgs osArgs h c as =
     (case parent c of
        Some p \<Rightarrow>
          (case deref h p of
             None \<Rightarrow> Panic ''invalid memory address or nil pointer dereference''
           | Some pc \<Rightarrow>
               if args pc = [] then Panic ''slice bounds out of range [1:0]''
               else Return (tl (args pc)))
      | None \<Rightarrow>
          if as \<noteq> [] then Return as
          else if osArgs = [] then Panic ''slice bounds out of range [1:0]''
          else Return (tl osArgs))"

definition setparsed :: "heap \<Rightarrow> nat \<Rightarrow> ctl \<Rightarrow> heap" where
  "setparsed h a k =
     (case k of
        Exits n \<Rightarrow> h
      | _ \<Rightarrow> (case deref h a of None \<Rightarrow> h | Some c \<Rightarrow> h[a := c\<lparr>parsed := True\<rparr>]))"

function Parse :: "string list \<Rightarrow> heap \<Rightarrow> nat \<Rightarrow> string list \<Rightarrow> heap \<times> string list \<times> ctl" where
  "Parse osArgs h a as =
     (case deref h a of
        None \<Rightarrow> (h, [], Panics ''invalid memory address or nil pointer dereference'')
      | Some c \<Rightarrow>
          (case seedArgs osArgs h c as of
             Panic m \<Rightarrow> (setparsed h a (Panics m), [], Panics m)
           | Return as' \<Rightarrow>
               (case parseLoop (c\<lparr>args := as'\<rparr>) [] of
                  (c', log, Some ch, k) \<Rightarrow>
                    (case Parse osArgs (h[a := c']) ch [] of
                       (h', log', k') \<Rightarrow> (setparsed h' a k', log @ log', k'))
                | (c', log, None, k) \<Rightarrow> (setparsed (h[a := c']) a k, log, k))))"
  by pat_completeness auto
termination
  by (relation "{}") (auto dest: parseLoop_some_child)

declare Parse.simps [simp del]

text \<open>\<open>NewChild\<close>: the child is allocated at the end of the heap.\<close>

definition NewChild :: "string \<Rightarrow> string outcome \<Rightarrow> heap \<Rightarrow> nat \<Rightarrow> string \<Rightarrow> (heap \<times> nat) outcome" where
  "NewChild H url h p nm =
     (case deref h p of
        None \<Rightarrow> Panic ''invalid memory address or nil pointer dereference''
      | Some c \<Rightarrow>
          (case NewCommand H url nm (errorPolicy c) of
             Panic m \<Rightarrow> Panic m
           | Return s \<Rightarrow>
               Return (h[p := c\<lparr>children := children c @ [length h]\<rparr>]
                         @ [s\<lparr>parent := Some p, URL := URL c\<rparr>],
                       length h)))"

section \<open>Example commands\<close>

text \<open>The commands of the examples, as \<open>NewCommand\<close>, \<open>Bool\<close>, \<open>Int\<close> and
  \<open>NewChild\<close> build them (with \<open>HelpName\<close> at its initial value \<open>help\<close> and an empty
  URL).\<close>

definition helpFlag :: Flag where
  "helpFlag = \<lparr>Name = ''help'', Description = ''print this message'', DefValue = ''false'',
                Short = True, Value = boolValue False\<rparr>"

definition app :: Command where
  "app = \<lparr>parent = None, actual = {}, formal = [(''help'', helpFlag)], UsageSet = True,
           Format = ''%s [options] [args...]'', name = ''app'', URL = [], children = [],
           args = [], aliases = [], parsed = False, errorPolicy = ContinueOnError,
           lambda = False\<rparr>"

definition countFlag :: "64 word \<Rightarrow> Flag" where
  "countFlag v = \<lparr>Name = ''count'', Description = ''how many'', DefValue = ''5'',
                   Short = False, Value = intValue v\<rparr>"

definition app_count :: "64 word \<Rightarrow> Command" where
  "app_count v = app\<lparr>formal := [(''help'', helpFlag), (''count'', countFlag v)]\<rparr>"

definition verboseFlag :: "bool \<Rightarrow> Flag" where
  "verboseFlag b = \<lparr>Name = ''verbose'', Description = ''say more'', DefValue = ''false'',
                     Short = True, Value = boolValue b\<rparr>"

definition app_verbose :: "bool \<Rightarrow> Command" where
  "app_verbose b = app\<lparr>formal := [(''help'', helpFlag), (''verbose'', verboseFlag b)]\<rparr>"

definition tree :: heap where
  "tree = [app\<lparr>children := [1, 2]\<rparr>,
           app\<lparr>name := ''build'', parent := Some 0\<rparr>,
           app\<lparr>name := ''test'', parent := Some 0\<rparr>]"

definition aFlag :: "bool \<Rightarrow> Flag" where
  "aFlag b = \<lparr>Name = ''all'', Description = ''everything'', DefValue = ''false'',
               Short = True, Value = boolValue b\<rparr>"

definition nFlag :: "64 word \<Rightarrow> Flag" where
  "nFlag v = \<lparr>Name = ''num'', Description = ''how many'', DefValue = ''0'',
               Short = True, Value = intValue v\<rparr>"

definition app_an :: "bool \<Rightarrow> 64 word \<Rightarrow> Command" where
  "app_an b v = app\<lparr>formal := [(''help'', helpFlag), (''all'', aFlag b), (''num'', nFlag v)]\<rparr>"

definition tree_an :: heap where
  "tree_an = [app\<lparr>children := [1], args := [''build'', ''-an'', ''5'']\<rparr>,
              (app_an False 0)\<lparr>name := ''build'', parent := Some 0\<rparr>]"

text \<open>What \<open>parseOne\<close> finds for a name, \<open>c.formal[c.accepts(name)]\<close>, reduced to whether
  the flag is boolean; \<open>None\<close> when no flag is found or \<open>accepts\<close> panics.\<close>

definition isBoolAt :: "Command \<Rightarrow> string \<Rightarrow> bool option" where
  "isBoolAt c nm =
     (case accepts c nm of
        Panic m \<Rightarrow> None
      | Return k \<Rightarrow> map_option (\<lambda>f. Value_IsBool (Value f)) (map_of (formal c) k))"

section \<open>Properties\<close>

subsection \<open>Unfolding the loop, and the example commands\<close>

lemma parseLoop_seen:
  "parseOne c = (c', Res None True err) \<Longrightarrow> parseLoop c lg = parseLoop c' lg"
  by (subst parseLoop.simps) simp

lemma parseLoop_done:
  "parseOne c = (c', Res None False None) \<Longrightarrow> parseLoop c lg = (c', lg, None, Normal)"
  by (subst parseLoop.simps) simp

lemma parseLoop_error:
  "parseOne c = (c', Res None False (Some e)) \<Longrightarrow> Handle c' (Some e) = (out, Normal) \<Longrightarrow>
   parseLoop c lg = parseLoop c' (lg @ out)"
  by (subst parseLoop.simps) simp

lemma parseLoop_stop:
  "parseOne c = (c', Res None False (Some e)) \<Longrightarrow> Handle c' (Some e) = (out, k) \<Longrightarrow> k \<noteq> Normal \<Longrightarrow>
   parseLoop c lg = (c', lg @ out, None, k)"
  by (subst parseLoop.simps) (cases k; simp)

lemma parseLoop_panic:
  "parseOne c = (c', PanicRes m) \<Longrightarrow> parseLoop c lg = (c', lg, None, Panics m)"
  by (subst parseLoop.simps) simp

lemma Parse_no_child:
  "deref h a = Some c \<Longrightarrow> seedArgs osArgs h c as = Return as' \<Longrightarrow>
   parseLoop (c\<lparr>args := as'\<rparr>) [] = (c', lg, None, k) \<Longrightarrow>
   Parse osArgs h a as = (setparsed (h[a := c']) a k, lg, k)"
  by (subst Parse.simps) simp

lemma Handle_Continue: "errorPolicy c = ContinueOnError \<Longrightarrow> Handle c (Some e) = ([e], Normal)"
  by (simp add: Handle_def)

lemmas ev = NewCommand_def Var_def Command_Bool_def Command_Int_def FormatBool_def HasPrefix_def
  TrimPrefix_def ContainsEq_def SplitEq_def quote_def parseOne_def accepts_def setValue_def Let_def

lemmas fx = app_def helpFlag_def app_count_def countFlag_def verboseFlag_def app_verbose_def

lemma app_new: "NewCommand ''help'' (Return []) ''app'' ContinueOnError = Return app"
  by (simp add: ev fx)

lemma FormatInt_5: "FormatInt 5 = ''5''"
  by (simp add: FormatInt_def FormatUint.simps)

lemma ParseInt_10: "ParseInt ''10'' 64 = (10, None)"
  by (simp add: ParseInt_def ParseUintBytes_def lower_def Let_def)

lemma app_count_new:
  "Command_Int ''help'' app ''count'' 5 ''how many'' False = Return (app_count 5)"
  by (simp add: ev fx FormatInt_5)

lemma app_verbose_new:
  "Command_Bool ''help'' app ''verbose'' False ''say more'' True = Return (app_verbose False)"
  by (simp add: ev fx)

lemma tree_new:
  "NewChild ''help'' (Return []) [app] 0 ''build'' =
     Return ([app\<lparr>children := [1]\<rparr>, app\<lparr>name := ''build'', parent := Some 0\<rparr>], 1)"
  "NewChild ''help'' (Return [])
     [app\<lparr>children := [1]\<rparr>, app\<lparr>name := ''build'', parent := Some 0\<rparr>] 0 ''test'' =
     Return (tree, 2)"
  by (simp_all add: NewChild_def deref_def ev fx tree_def ContinueOnError_def)

lemma parseOne_no_args: "args c = [] \<Longrightarrow> parseOne c = (c, Res None False None)"
  by (simp add: parseOne_def)

lemma Parse_root:
  assumes "parent c = None" and "as \<noteq> []"
    and "parseLoop (c\<lparr>args := as\<rparr>) [] = (c', lg, None, Normal)"
  shows "Parse osArgs [c] 0 as = ([c'\<lparr>parsed := True\<rparr>], lg, Normal)"
proof -
  have dr: "deref [c] 0 = Some c" by (simp add: deref_def)
  have sd: "seedArgs osArgs [c] c as = Return as" using assms(1,2) by (simp add: seedArgs_def)
  have sp: "setparsed ([c][0 := c']) 0 Normal = [c'\<lparr>parsed := True\<rparr>]"
    by (simp add: setparsed_def deref_def)
  show ?thesis unfolding Parse_no_child [OF dr sd assms(3)] sp ..
qed

subsection \<open>Flag and value joined by \<open>=\<close>\<close>

lemma count_eq_10_unknown:
  "parseOne ((app_count 5)\<lparr>args := [''--count=10'']\<rparr>) =
     (app_count 5, Res None False (Some ''unknown flag: --count''))"
  by (simp add: ev fx)

lemma count_eq_10_Parse:
  "Parse osArgs [app_count 5] 0 [''--count=10''] =
     ([(app_count 5)\<lparr>parsed := True\<rparr>], [''unknown flag: --count''], Normal)"
proof -
  have h: "Handle (app_count 5) (Some ''unknown flag: --count'') = ([''unknown flag: --count''], Normal)"
    by (rule Handle_Continue) (simp add: fx)
  have d: "parseOne (app_count 5) = (app_count 5, Res None False None)"
    by (rule parseOne_no_args) (simp add: fx)
  have l: "parseLoop ((app_count 5)\<lparr>args := [''--count=10'']\<rparr>) [] =
             (app_count 5, [''unknown flag: --count''], None, Normal)"
    using parseLoop_error [OF count_eq_10_unknown h, of "[]"] parseLoop_done [OF d] by simp
  show ?thesis by (rule Parse_root [OF _ _ l]) (simp_all add: fx)
qed

lemma count_eq_10_bare:
  "parseOne ((app_count 5)\<lparr>args := [''count=10'']\<rparr>) = (app_count 10, Res None True None)"
  by (simp add: ev fx IntSize_def ParseInt_10)

lemma shortFlags_actual: "actual (fst (shortFlags c rs n)) = actual c"
  by (induction c rs n rule: shortFlags.induct)
     (auto split: outcome.splits option.splits)

lemma parseOne_actual: "actual (fst (parseOne c)) = actual c"
  by (auto simp: parseOne_def Let_def shortFlags_actual
           split: prod.splits outcome.splits option.splits)

text \<open>
  C1. The command is \<open>NewCommand("app", ContinueOnError)\<close> with
  \<open>Int(p, "count", 5, "how many", false)\<close>. On the token \<open>--count=10\<close> the flag name
  handed to \<open>accepts\<close> is \<open>--count\<close>, dashes included, which no registered name equals:
  \<open>parseOne\<close> returns "unknown flag: --count", \<open>Parse\<close> writes that message and
  returns, and \<open>count\<close> is still 5. On the token \<open>count=10\<close> the value 10 is stored, and
  the set of actual flags is still empty: on no command does \<open>parseOne\<close> change that
  set.
\<close>

theorem count_eq_10_not_stored:
  "NewCommand ''help'' (Return []) ''app'' ContinueOnError = Return app
   \<and> Command_Int ''help'' app ''count'' 5 ''how many'' False = Return (app_count 5)
   \<and> parseOne ((app_count 5)\<lparr>args := [''--count=10'']\<rparr>) =
        (app_count 5, Res None False (Some ''unknown flag: --count''))
   \<and> Parse osArgs [app_count 5] 0 [''--count=10''] =
        ([(app_count 5)\<lparr>parsed := True\<rparr>], [''unknown flag: --count''], Normal)
   \<and> parseOne ((app_count 5)\<lparr>args := [''count=10'']\<rparr>) = (app_count 10, Res None True None)
   \<and> actual (app_count 10) = {}
   \<and> actual (fst (parseOne c)) = actual c"
  using app_new app_count_new count_eq_10_unknown count_eq_10_Parse count_eq_10_bare
    parseOne_actual [of c]
  by (simp add: app_count_def app_def)

subsection \<open>Long flags without a value\<close>

lemma long_func_flag_seen:
  "parseOne (c\<lparr>formal := [(''hook'', \<lparr>Name = ''hook'', Description = d, DefValue = [],
                                       Short = False, Value = funcValue f\<rparr>)],
               args := [''--hook'']\<rparr>) =
     (c\<lparr>formal := [(''hook'', \<lparr>Name = ''hook'', Description = d, DefValue = [],
                                  Short = False, Value = funcValue f\<rparr>)],
        args := []\<rparr>, Res None True None)"
  by (simp add: ev)

text \<open>
  C2. The command is \<open>NewCommand("app", ContinueOnError)\<close> with
  \<open>Bool(p, "verbose", false, "say more", true)\<close>. The token \<open>--verbose\<close> resolves to
  the boolean flag, and so does \<open>--help\<close> to the help flag, but the test
  \<open>flag.Value.Get().(boolFlag)\<close> fails for a boolean box (\<open>Get\<close> returns a plain
  \<open>bool\<close>): \<open>parseOne\<close> returns "missing value for non-boolean flag" and the flag
  keeps its value. The one box that passes the test is the function box: \<open>--hook\<close> on a
  function flag calls the callback with \<open>true\<close> and counts as a flag seen.
\<close>

theorem long_bool_flag_missing_value:
  "Command_Bool ''help'' app ''verbose'' False ''say more'' True = Return (app_verbose False)
   \<and> parseOne ((app_verbose False)\<lparr>args := [''--verbose'']\<rparr>) =
        (app_verbose False, Res None False (Some ''missing value for non-boolean flag: verbose''))
   \<and> parseOne (app\<lparr>args := [''--help'']\<rparr>) =
        (app, Res None False (Some ''missing value for non-boolean flag: help''))
   \<and> parseOne (c\<lparr>formal := [(''hook'', \<lparr>Name = ''hook'', Description = d, DefValue = [],
                                            Short = False, Value = funcValue f\<rparr>)],
                    args := [''--hook'']\<rparr>) =
        (c\<lparr>formal := [(''hook'', \<lparr>Name = ''hook'', Description = d, DefValue = [],
                                     Short = False, Value = funcValue f\<rparr>)],
           args := []\<rparr>, Res None True None)"
  using app_verbose_new long_func_flag_seen [where c = c and d = d and f = f]
  by (simp add: ev fx)


subsection \<open>The error gate\<close>

text \<open>
  C4. Under \<open>LogOnError\<close> the gate should only write the message. \<open>Handle\<close> has no
  case for \<open>LogOnError\<close>: a non-nil error falls to the default case, which panics with
  the text "unrecognized error policy" and writes nothing. With no error the gate does
  nothing, whatever the policy.
\<close>

theorem Handle_LogOnError_panics:
  "Handle (c\<lparr>errorPolicy := LogOnError\<rparr>) (Some e) = ([], Panics ''unrecognized error policy'')
   \<and> Handle c None = ([], Normal)"
  by (simp add: Handle_def LogOnError_def ContinueOnError_def ExitOnError_def PanicOnError_def)

subsection \<open>Positional tokens\<close>

lemma dd_unknown:
  "parseOne (app\<lparr>args := [''--'', ''-notaflag'']\<rparr>) =
     (app\<lparr>args := [''-notaflag'']\<rparr>, Res None False (Some ''unknown flag: ''))"
  by (simp add: ev fx)

lemma runes_notaflag:
  "runes ''notaflag'' = (0, ''n'') # runesFrom 1 ''otaflag''"
  by (simp add: runes_def runesFrom.simps [of 0] runeWidth_def)

lemma notaflag_unknown:
  "parseOne (app\<lparr>args := [''-notaflag'']\<rparr>) = (app, Res None False (Some ''unknown flag: n''))"
  by (simp add: ev fx runes_notaflag)

lemma dd_Parse:
  "Parse osArgs [app] 0 [''--'', ''-notaflag''] =
     ([app\<lparr>parsed := True\<rparr>], [''unknown flag: '', ''unknown flag: n''], Normal)"
proof -
  have p: "errorPolicy (app\<lparr>args := [''-notaflag'']\<rparr>) = ContinueOnError" "errorPolicy app = ContinueOnError"
    by (simp_all add: fx)
  have d: "parseOne app = (app, Res None False None)"
    by (rule parseOne_no_args) (simp add: fx)
  have l: "parseLoop (app\<lparr>args := [''--'', ''-notaflag'']\<rparr>) [] =
             (app, [''unknown flag: '', ''unknown flag: n''], None, Normal)"
    using parseLoop_error [OF dd_unknown Handle_Continue [OF p(1)], of "[]"]
      parseLoop_error [OF notaflag_unknown Handle_Continue [OF p(2)], of "[''unknown flag: '']"]
      parseLoop_done [OF d] by simp
  show ?thesis by (rule Parse_root [OF _ _ l]) (simp_all add: fx)
qed

lemma positional_dropped:
  "Parse osArgs [app] 0 [''foo'', ''bar''] = ([app\<lparr>args := [''bar''], parsed := True\<rparr>], [], Normal)"
proof -
  have 1: "parseOne (app\<lparr>args := [''foo'', ''bar'']\<rparr>) = (app\<lparr>args := [''bar'']\<rparr>, Res None False None)"
    by (simp add: ev fx)
  show ?thesis by (rule Parse_root [OF _ _ parseLoop_done [OF 1]]) (simp_all add: fx)
qed

lemma bare_dash_seen:
  "parseOne (app\<lparr>args := [''-'', ''x'']\<rparr>) = (app\<lparr>args := [''x'']\<rparr>, Res None True None)"
  by (simp add: ev fx runes_def runesFrom.simps)

text \<open>
  C5. On \<open>NewCommand("app", ContinueOnError)\<close>, \<open>Parse("--", "-notaflag")\<close> takes
  \<open>--\<close> for a long flag with the empty name and \<open>-notaflag\<close> for a cluster of short
  flags: it writes two "unknown flag" messages and leaves no positional argument. A token
  that does not start with \<open>-\<close> ends the loop after it has been removed from the
  arguments, so \<open>Parse("foo", "bar")\<close> leaves only \<open>bar\<close>; a bare \<open>-\<close> counts as a
  flag that was seen and is dropped.
\<close>

theorem terminator_not_positional:
  "Parse osArgs [app] 0 [''--'', ''-notaflag''] =
     ([app\<lparr>parsed := True\<rparr>], [''unknown flag: '', ''unknown flag: n''], Normal)
   \<and> Parse osArgs [app] 0 [''foo'', ''bar''] =
       ([app\<lparr>args := [''bar''], parsed := True\<rparr>], [], Normal)
   \<and> parseOne (app\<lparr>args := [''-'', ''x'']\<rparr>) = (app\<lparr>args := [''x'']\<rparr>, Res None True None)"
  using dd_Parse positional_dropped bare_dash_seen by simp

subsection \<open>Child commands\<close>

lemma build_Parse:
  "Parse osArgs tree 0 [''build'', ''--verbose''] =
     (tree[0 := (tree ! 0)\<lparr>args := [''--verbose''], parsed := True\<rparr>], [], Normal)"
proof -
  let ?r = "app\<lparr>children := [1, 2]\<rparr>"
  have 1: "parseOne (?r\<lparr>args := [''build'', ''--verbose'']\<rparr>) = (?r\<lparr>args := [''--verbose'']\<rparr>, Res None False None)"
    by (simp add: ev fx)
  have dr: "deref tree 0 = Some ?r" by (simp add: deref_def tree_def)
  have sd: "seedArgs osArgs tree ?r [''build'', ''--verbose''] = Return [''build'', ''--verbose'']"
    by (simp add: seedArgs_def fx)
  show ?thesis
    unfolding Parse_no_child [OF dr sd parseLoop_done [OF 1]]
    by (simp add: setparsed_def deref_def tree_def)
qed

text \<open>
  C3. The heap \<open>tree\<close> is the root \<open>app\<close> with the children \<open>build\<close> and \<open>test\<close>
  made by \<open>NewChild\<close>. \<open>Parse("build", "--verbose")\<close> on the root removes \<open>build\<close>,
  finds neither a flag nor a child (\<open>parseOne\<close> never returns one) and stops: the
  root's arguments are \<open>--verbose\<close>, and the child \<open>build\<close> was not parsed.
\<close>

theorem child_not_selected:
  "NewChild ''help'' (Return []) [app] 0 ''build'' =
     Return ([app\<lparr>children := [1]\<rparr>, app\<lparr>name := ''build'', parent := Some 0\<rparr>], 1)
   \<and> NewChild ''help'' (Return [])
       [app\<lparr>children := [1]\<rparr>, app\<lparr>name := ''build'', parent := Some 0\<rparr>] 0 ''test'' =
       Return (tree, 2)
   \<and> Parse osArgs tree 0 [''build'', ''--verbose''] =
       ([app\<lparr>children := [1, 2], args := [''--verbose''], parsed := True\<rparr>,
         app\<lparr>name := ''build'', parent := Some 0\<rparr>,
         app\<lparr>name := ''test'', parent := Some 0\<rparr>], [], Normal)
   \<and> parsed (app\<lparr>name := ''build'', parent := Some 0\<rparr>) = False"
  using tree_new build_Parse by (simp add: tree_def app_def)

subsection \<open>A failing \<open>Set\<close>\<close>















subsection \<open>Creating a command\<close>

text \<open>
  C10. Let the help-flag name \<open>H\<close> be a valid flag name (it does not begin with \<open>-\<close>
  and contains no \<open>=\<close>, as \<open>help\<close> and every name set by \<open>SetHelpFlag\<close> are) and let
  \<open>EnvUrl\<close> return. For a name other than \<open>H\<close>, \<open>NewCommand\<close> returns a command
  with that name and policy whose formal flags hold, under \<open>H\<close>, a boolean short-eligible
  flag with value \<open>false\<close> and default text \<open>false\<close>. For the name \<open>H\<close> it returns a
  command with no flag.
\<close>

theorem NewCommand_registers_help:
  assumes "\<not> HasPrefix H ''-''" and "\<not> ContainsEq H"
  shows "(nm \<noteq> H \<longrightarrow>
            (\<exists>c. NewCommand H (Return u) nm policy = Return c \<and> name c = nm \<and> errorPolicy c = policy
               \<and> map_of (formal c) H =
                   Some \<lparr>Name = H, Description = ''print this message'', DefValue = ''false'',
                         Short = True, Value = boolValue False\<rparr>))
         \<and> (nm = H \<longrightarrow>
            (\<exists>c. NewCommand H (Return u) nm policy = Return c \<and> name c = nm \<and> errorPolicy c = policy
               \<and> formal c = []))"
  using assms by (simp add: NewCommand_def Var_def FormatBool_def)

text \<open>The theorem at \<open>H = help\<close>, for the names \<open>app\<close> and \<open>help\<close>.\<close>

theorem NewCommand_registers_help_witness:
  "\<not> HasPrefix ''help'' ''-'' \<and> \<not> ContainsEq ''help''
   \<and> (\<exists>c. NewCommand ''help'' (Return []) ''app'' ContinueOnError = Return c
          \<and> map_of (formal c) ''help'' = Some helpFlag)
   \<and> (\<exists>c. NewCommand ''help'' (Return []) ''help'' ContinueOnError = Return c \<and> formal c = [])"
proof -
  have h: "\<not> HasPrefix ''help'' ''-''" "\<not> ContainsEq ''help''"
    by (simp_all add: HasPrefix_def ContainsEq_def)
  show ?thesis
    using h NewCommand_registers_help [OF h, of "''app''" "[]" ContinueOnError]
      NewCommand_registers_help [OF h, of "''help''" "[]" ContinueOnError]
    by (auto simp: helpFlag_def)
qed

subsection \<open>Short-name collisions\<close>

lemma collisions_Panic:
  "(k, other) \<in> set kvs \<Longrightarrow> Name other \<noteq> Name flag \<Longrightarrow> Short other \<Longrightarrow>
   hd (Name other) = hd (Name flag) \<Longrightarrow> Name other \<noteq> H \<Longrightarrow>
   \<exists>m. collisions H flag kvs = Panic m"
proof (induction kvs)
  case Nil
  then show ?case by simp
next
  case (Cons a kvs)
  obtain k' o' where a: "a = (k', o')" by (cases a)
  show ?case
  proof (cases "(k, other) = a")
    case True
    with Cons.prems a show ?thesis by auto
  next
    case False
    with Cons a obtain m where "collisions H flag kvs = Panic m" by auto
    with a show ?thesis by (auto split: outcome.splits)
  qed
qed

lemma collisions_Return:
  "Name flag \<noteq> [] \<Longrightarrow>
   \<forall>(k, g) \<in> set kvs. Name g \<noteq> [] \<and> (Short g \<and> hd (Name g) = hd (Name flag) \<and> Name g \<noteq> Name flag \<longrightarrow> Name g = H) \<Longrightarrow>
   collisions H flag kvs =
     Return (map (\<lambda>(k, g). (k, if Name g \<noteq> Name flag \<and> hd (Name g) = hd (Name flag) \<and> Short g
                                 then g\<lparr>Short := False\<rparr> else g)) kvs)"
  by (induction kvs) (auto split: if_splits)

text \<open>
  C8. A new, valid, non-empty name \<open>nm\<close> is registered as short-eligible on a command
  where a short-eligible flag \<open>other\<close> with another name has the same first character.
  If \<open>other\<close> is not the help flag, \<open>Var\<close> panics. If \<open>other\<close> is the help flag and
  no other short-eligible flag shares the character (the invariant of the registry),
  \<open>Var\<close> returns: the help flag is no longer short-eligible, the other flags are as
  they were, and the new flag is registered.
\<close>

theorem Var_short_collision:
  assumes "\<not> HasPrefix nm ''-''" and "\<not> ContainsEq nm" and "map_of (formal c) nm = None"
    and "nm \<noteq> []"
    and "(k, other) \<in> set (formal c)" and "Short other" and "Name other \<noteq> []"
    and "hd (Name other) = hd nm" and "Name other \<noteq> nm"
  shows "(Name other \<noteq> H \<longrightarrow> (\<exists>m. Var H c v nm usage True = Panic m))
       \<and> (Name other = H
            \<and> (\<forall>(k', g) \<in> set (formal c).
                  Name g \<noteq> [] \<and> (Short g \<and> hd (Name g) = hd nm \<and> Name g \<noteq> nm \<longrightarrow> Name g = H)) \<longrightarrow>
          Var H c v nm usage True =
            Return (c\<lparr>formal :=
                       map (\<lambda>(k', g). (k', if Name g = H then g\<lparr>Short := False\<rparr> else g)) (formal c)
                       @ [(nm, \<lparr>Name = nm, Description = usage, DefValue = Value_String v,
                                Short = True, Value = v\<rparr>)]\<rparr>))"
proof (intro conjI impI)
  let ?flag = "\<lparr>Name = nm, Description = usage, DefValue = Value_String v, Short = True, Value = v\<rparr>"
  assume "Name other \<noteq> H"
  with assms(5-9) obtain m where "collisions H ?flag (formal c) = Panic m"
    using collisions_Panic [of k other "formal c" ?flag H] by auto
  with assms(1-3) show "\<exists>m. Var H c v nm usage True = Panic m"
    by (simp add: Var_def)
next
  let ?flag = "\<lparr>Name = nm, Description = usage, DefValue = Value_String v, Short = True, Value = v\<rparr>"
  assume a: "Name other = H \<and> (\<forall>(k', g) \<in> set (formal c).
                  Name g \<noteq> [] \<and> (Short g \<and> hd (Name g) = hd nm \<and> Name g \<noteq> nm \<longrightarrow> Name g = H))"
  then have r: "collisions H ?flag (formal c) =
     Return (map (\<lambda>(k, g). (k, if Name g \<noteq> Name ?flag \<and> hd (Name g) = hd (Name ?flag) \<and> Short g
                                 then g\<lparr>Short := False\<rparr> else g)) (formal c))"
    using assms(4) by (intro collisions_Return) auto
  have "map (\<lambda>(k, g). (k, if Name g \<noteq> Name ?flag \<and> hd (Name g) = hd (Name ?flag) \<and> Short g
                                 then g\<lparr>Short := False\<rparr> else g)) (formal c)
        = map (\<lambda>(k', g). (k', if Name g = H then g\<lparr>Short := False\<rparr> else g)) (formal c)"
    using a assms(8,9) by (intro map_cong) auto
  with r assms(1-3) show "Var H c v nm usage True =
            Return (c\<lparr>formal :=
                       map (\<lambda>(k', g). (k', if Name g = H then g\<lparr>Short := False\<rparr> else g)) (formal c)
                       @ [(nm, ?flag)]\<rparr>)"
    by (simp add: Var_def)
qed


text \<open>The theorem at \<open>version\<close> against \<open>verbose\<close> (a panic) and at \<open>hello\<close> against
  \<open>help\<close> (the help flag gives way).\<close>

theorem Var_short_collision_witness:
  "(\<exists>m. Var ''help'' (app_verbose False) (boolValue False) ''version'' ''show version'' True = Panic m)
   \<and> Var ''help'' app (boolValue False) ''hello'' ''greet'' True =
       Return (app\<lparr>formal := [(''help'', helpFlag\<lparr>Short := False\<rparr>),
                              (''hello'', \<lparr>Name = ''hello'', Description = ''greet'',
                                           DefValue = ''false'', Short = True,
                                           Value = boolValue False\<rparr>)]\<rparr>)"
proof
  have "Name (verboseFlag False) \<noteq> ''help'' \<longrightarrow>
        (\<exists>m. Var ''help'' (app_verbose False) (boolValue False) ''version'' ''show version'' True = Panic m)"
    using Var_short_collision [where nm = "''version''" and c = "app_verbose False"
        and k = "''verbose''" and other = "verboseFlag False" and H = "''help''"
        and v = "boolValue False" and usage = "''show version''"]
    by (simp add: fx HasPrefix_def ContainsEq_def)
  then show "\<exists>m. Var ''help'' (app_verbose False) (boolValue False) ''version'' ''show version'' True = Panic m"
    by (simp add: fx)
next
  show "Var ''help'' app (boolValue False) ''hello'' ''greet'' True =
       Return (app\<lparr>formal := [(''help'', helpFlag\<lparr>Short := False\<rparr>),
                              (''hello'', \<lparr>Name = ''hello'', Description = ''greet'',
                                           DefValue = ''false'', Short = True,
                                           Value = boolValue False\<rparr>)]\<rparr>)"
    using Var_short_collision [where nm = "''hello''" and c = app
        and k = "''help''" and other = helpFlag and H = "''help''"
        and v = "boolValue False" and usage = "''greet''"]
    by (simp add: fx HasPrefix_def ContainsEq_def FormatBool_def)
qed


subsection \<open>Clusters of short flags\<close>

lemma acceptsLoop_setValue [simp]: "acceptsLoop (setValue k v kvs) nm = acceptsLoop kvs nm"
  by (induction kvs) (auto simp: setValue_def)

lemma map_of_setValue:
  "map_of (setValue k v kvs) k' =
     map_option (\<lambda>f. if k' = k then f\<lparr>Value := v\<rparr> else f) (map_of kvs k')"
  by (induction kvs) (auto simp: setValue_def)

lemma Value_IsBool_Set [simp]: "Value_IsBool (fst (Value_Set v s)) = Value_IsBool v"
  by (cases v) (auto split: prod.splits)

lemma isBoolAt_setValue:
  assumes "map_of (formal c) k = Some flag" and "Value_IsBool v = Value_IsBool (Value flag)"
  shows "isBoolAt (c\<lparr>formal := setValue k v (formal c)\<rparr>) nm = isBoolAt c nm"
proof (cases "accepts c nm")
  case (Panic m)
  then show ?thesis by (simp add: isBoolAt_def accepts_def)
next
  case (Return x1)
  show ?thesis
  proof (cases "x1 = k")
    case True
    with Return assms show ?thesis by (simp add: isBoolAt_def accepts_def map_of_setValue)
  next
    case False
    with Return show ?thesis
      by (simp add: isBoolAt_def accepts_def map_of_setValue option.map_comp comp_def)
  qed
qed

lemma runesFrom_ascii:
  "of_char y < (128::nat) \<Longrightarrow> runesFrom i (y # s) = (i, [y]) # runesFrom (i + 1) s"
  by (subst runesFrom.simps) (simp add: runeWidth_def)

lemma shortFlags_nonfinal:
  "\<forall>y \<in> set pre. of_char y < (128::nat) \<and> isBoolAt c [y] = Some True \<Longrightarrow>
   of_char x < (128::nat) \<Longrightarrow> isBoolAt c [x] = Some False \<Longrightarrow> i + length pre + 1 < n \<Longrightarrow>
   snd (shortFlags c (runesFrom i (pre @ x # post)) n) =
     Res None False (Some (''unexpected value for boolean flag: '' @ [x]))"
proof (induction pre arbitrary: c i)
  case Nil
  then show ?case
    by (auto simp: runesFrom_ascii isBoolAt_def split: outcome.splits option.splits)
next
  case (Cons y pre)
  from Cons.prems(1) obtain k flag where k: "accepts c [y] = Return k"
    "map_of (formal c) k = Some flag" "Value_IsBool (Value flag)"
    by (auto simp: isBoolAt_def split: outcome.splits option.splits)
  let ?c = "c\<lparr>formal := setValue k (fst (Value_Set (Value flag) ''true'')) (formal c)\<rparr>"
  have inv: "isBoolAt ?c nm = isBoolAt c nm" for nm
    by (rule isBoolAt_setValue [OF k(2)]) simp
  have "snd (shortFlags ?c (runesFrom (i + 1) (pre @ x # post)) n) =
     Res None False (Some (''unexpected value for boolean flag: '' @ [x]))"
    using Cons.prems by (intro Cons.IH) (auto simp: inv)
  with k Cons.prems(1) show ?case by (simp add: runesFrom_ascii)
qed

lemma nonfinal_error:
  assumes "\<forall>y \<in> set pre. of_char y < (128::nat) \<and> isBoolAt c [y] = Some True"
    and "of_char x < (128::nat)" and "isBoolAt c [x] = Some False" and "post \<noteq> []"
    and "\<not> ContainsEq (pre @ x # post)" and "hd (pre @ [x]) \<noteq> CHR ''-''"
  shows "snd (parseOne (c\<lparr>args := (CHR ''-'' # pre @ x # post) # rest\<rparr>)) =
     Res None False (Some (''unexpected value for boolean flag: '' @ [x]))"
proof -
  let ?c = "c\<lparr>args := rest\<rparr>"
  have b: "isBoolAt ?c nm = isBoolAt c nm" for nm
    by (simp add: isBoolAt_def accepts_def split: outcome.splits)
  have n: "0 + length pre + 1 < length (pre @ x # post)" using assms(4) by (cases post) auto
  have "snd (shortFlags ?c (runesFrom 0 (pre @ x # post)) (length (pre @ x # post))) =
     Res None False (Some (''unexpected value for boolean flag: '' @ [x]))"
    using assms(1-3) n by (intro shortFlags_nonfinal) (auto simp: b)
  moreover have "\<not> HasPrefix (CHR ''-'' # pre @ x # post) ''--''"
    using assms(6) by (cases pre) (auto simp: HasPrefix_def)
  ultimately show ?thesis using assms(5)
    by (simp add: parseOne_def ContainsEq_def HasPrefix_def TrimPrefix_def runes_def Let_def)
qed


lemma Value_Set_true: "Value_IsBool v \<Longrightarrow> fst (Value_Set v ''true'') = boolValue True"
  by (cases v) (simp_all add: ParseBool_def)

lemma cluster_an_rest:
  assumes "accepts c ''a'' = Return ka" and "map_of (formal c) ka = Some fa"
    and "Value_IsBool (Value fa)"
    and "accepts c ''n'' = Return kn" and "map_of (formal c) kn = Some fn"
    and "\<not> Value_IsBool (Value fn)"
  shows "parseOne (c\<lparr>args := ''-an'' # v # rest\<rparr>) =
     (c\<lparr>formal := setValue kn (fst (Value_Set (Value fn) v))
                       (setValue ka (boolValue True) (formal c)),
        args := rest\<rparr>, Res None True None)"
proof -
  have ne: "kn \<noteq> ka" using assms(2,3,5,6) by auto
  have r: "runes ''an'' = [(0, ''a''), (1, ''n'')]"
    by (simp add: runes_def runesFrom_ascii) (simp add: runesFrom.simps)
  have a: "accepts (c\<lparr>args := v # rest\<rparr>) ''a'' = Return ka"
    using assms(1) by (simp add: accepts_def)
  have n: "accepts (c\<lparr>args := v # rest, formal := setValue ka (boolValue True) (formal c)\<rparr>) ''n'' = Return kn"
    using assms(4) by (simp add: accepts_def)
  have m: "map_of (setValue ka (boolValue True) (formal c)) kn = Some fn"
    using assms(5) ne by (simp add: map_of_setValue)
  show ?thesis
    using a n m assms(2,3,6)
    by (simp add: parseOne_def ContainsEq_def HasPrefix_def TrimPrefix_def r Value_Set_true)
qed

lemma cluster_an_Parse_any:
  assumes "deref h a = Some c" and "seedArgs osArgs h c as = Return [''-an'', v]"
    and "accepts c ''a'' = Return ka" and "map_of (formal c) ka = Some fa"
    and "Value_IsBool (Value fa)"
    and "accepts c ''n'' = Return kn" and "map_of (formal c) kn = Some fn"
    and "\<not> Value_IsBool (Value fn)"
  shows "Parse osArgs h a as =
     (h[a := c\<lparr>formal := setValue kn (fst (Value_Set (Value fn) v))
                        (setValue ka (boolValue True) (formal c)),
         args := [], parsed := True\<rparr>], [], Normal)"
proof -
  let ?c = "c\<lparr>formal := setValue kn (fst (Value_Set (Value fn) v))
                       (setValue ka (boolValue True) (formal c)), args := []\<rparr>"
  have d: "parseOne ?c = (?c, Res None False None)" by (rule parseOne_no_args) simp
  have l: "parseLoop (c\<lparr>args := [''-an'', v]\<rparr>) [] = (?c, [], None, Normal)"
    using parseLoop_seen [OF cluster_an_rest [OF assms(3-8), of v "[]"], of "[]"]
      parseLoop_done [OF d, of "[]"]
    by simp
  have lt: "a < length h" using assms(1) by (simp add: deref_def split: if_splits)
  show ?thesis
    unfolding Parse_no_child [OF assms(1,2) l]
    using lt by (simp add: setparsed_def deref_def)
qed

lemma acceptsLoop_unique:
  assumes "(k, f) \<in> set kvs" and "(Short f \<and> nm = take 1 k) \<or> nm = k"
    and "\<forall>(k', f') \<in> set kvs. (Short f' \<longrightarrow> k' \<noteq> [])
           \<and> ((Short f' \<and> nm = take 1 k') \<or> nm = k' \<longrightarrow> k' = k)"
  shows "acceptsLoop kvs nm = Return k"
  using assms(1,3)
proof (induction kvs)
  case Nil
  then show ?case by simp
next
  case (Cons a kvs)
  obtain k' f' where a: "a = (k', f')" by (cases a)
  from Cons.prems(2) a have np: "\<not> (Short f' \<and> k' = [])" by auto
  show ?case
  proof (cases "(Short f' \<and> nm = take 1 k') \<or> nm = k'")
    case True
    with Cons.prems(2) a have "k' = k" by auto
    with True np a show ?thesis by auto
  next
    case False
    with assms(2) a have "(k, f) \<noteq> a" by auto
    with Cons.prems have "(k, f) \<in> set kvs" by auto
    with Cons have "acceptsLoop kvs nm = Return k" by auto
    with False np a show ?thesis by auto
  qed
qed


lemmas fx2 = aFlag_def nFlag_def app_an_def

lemma app_an_new:
  "Command_Bool ''help'' app ''all'' False ''everything'' True =
     Return (app\<lparr>formal := [(''help'', helpFlag), (''all'', aFlag False)]\<rparr>)"
  "Command_Int ''help'' (app\<lparr>formal := [(''help'', helpFlag), (''all'', aFlag False)]\<rparr>)
     ''num'' 0 ''how many'' True = Return (app_an False 0)"
  by (simp_all add: ev fx fx2 FormatInt_def FormatUint.simps)

lemma ParseInt_5: "ParseInt ''5'' 64 = (5, None)"
  by (simp add: ParseInt_def ParseUintBytes_def lower_def Let_def)

text \<open>
  C7. On any command, root or child, where the character \<open>a\<close> resolves to a boolean
  flag and \<open>n\<close> to a non-boolean one, \<open>parseOne\<close> on the tokens \<open>-an\<close>, \<open>v\<close> and any
  rest sets the first flag to \<open>true\<close>, hands \<open>v\<close> to the \<open>Set\<close> of the second, and
  leaves exactly the rest: the cluster takes one token, because \<open>n\<close> is its last
  character. A \<open>Parse\<close> that is seeded with \<open>-an\<close> and \<open>v\<close> gives the same flags
  and ends with no argument. In any cluster of ASCII characters, a character that resolves
  to a non-boolean flag, stands after characters of boolean flags and is not the last one
  makes \<open>parseOne\<close> fail with "unexpected value for boolean flag". Where exactly one key
  matches a name and no short-eligible key is empty, \<open>accepts\<close> returns that key in
  whatever order the map is visited.
\<close>

theorem short_cluster_last_takes_value:
  "(accepts c ''a'' = Return ka \<and> map_of (formal c) ka = Some fa \<and> Value_IsBool (Value fa)
      \<and> accepts c ''n'' = Return kn \<and> map_of (formal c) kn = Some fn
      \<and> \<not> Value_IsBool (Value fn) \<longrightarrow>
    parseOne (c\<lparr>args := ''-an'' # v # rest\<rparr>) =
      (c\<lparr>formal := setValue kn (fst (Value_Set (Value fn) v))
                        (setValue ka (boolValue True) (formal c)),
         args := rest\<rparr>, Res None True None)
    \<and> (deref h a = Some c \<and> seedArgs osArgs h c as = Return [''-an'', v] \<longrightarrow>
       Parse osArgs h a as =
         (h[a := c\<lparr>formal := setValue kn (fst (Value_Set (Value fn) v))
                            (setValue ka (boolValue True) (formal c)),
             args := [], parsed := True\<rparr>], [], Normal)))
   \<and> ((\<forall>y \<in> set pre. of_char y < (128::nat) \<and> isBoolAt c [y] = Some True)
      \<and> of_char x < (128::nat) \<and> isBoolAt c [x] = Some False \<and> post \<noteq> []
      \<and> \<not> ContainsEq (pre @ x # post) \<and> hd (pre @ [x]) \<noteq> CHR ''-'' \<longrightarrow>
    snd (parseOne (c\<lparr>args := (CHR ''-'' # pre @ x # post) # rest\<rparr>)) =
      Res None False (Some (''unexpected value for boolean flag: '' @ [x])))
   \<and> ((k, f) \<in> set (formal c) \<and> ((Short f \<and> nm = take 1 k) \<or> nm = k)
      \<and> (\<forall>(k', f') \<in> set (formal c). (Short f' \<longrightarrow> k' \<noteq> [])
            \<and> ((Short f' \<and> nm = take 1 k') \<or> nm = k' \<longrightarrow> k' = k)) \<longrightarrow>
    accepts c nm = Return k)"
proof (intro conjI impI)
  assume a: "accepts c ''a'' = Return ka \<and> map_of (formal c) ka = Some fa \<and> Value_IsBool (Value fa)
      \<and> accepts c ''n'' = Return kn \<and> map_of (formal c) kn = Some fn
      \<and> \<not> Value_IsBool (Value fn)"
  then show "parseOne (c\<lparr>args := ''-an'' # v # rest\<rparr>) =
      (c\<lparr>formal := setValue kn (fst (Value_Set (Value fn) v))
                        (setValue ka (boolValue True) (formal c)),
         args := rest\<rparr>, Res None True None)"
    using cluster_an_rest [of c ka fa kn fn v rest] by blast
  assume "deref h a = Some c \<and> seedArgs osArgs h c as = Return [''-an'', v]"
  with a show "Parse osArgs h a as =
         (h[a := c\<lparr>formal := setValue kn (fst (Value_Set (Value fn) v))
                            (setValue ka (boolValue True) (formal c)),
             args := [], parsed := True\<rparr>], [], Normal)"
    using cluster_an_Parse_any [of h a c osArgs as v ka fa kn fn] by blast
next
  assume "(\<forall>y \<in> set pre. of_char y < (128::nat) \<and> isBoolAt c [y] = Some True)
      \<and> of_char x < (128::nat) \<and> isBoolAt c [x] = Some False \<and> post \<noteq> []
      \<and> \<not> ContainsEq (pre @ x # post) \<and> hd (pre @ [x]) \<noteq> CHR ''-''"
  then show "snd (parseOne (c\<lparr>args := (CHR ''-'' # pre @ x # post) # rest\<rparr>)) =
      Res None False (Some (''unexpected value for boolean flag: '' @ [x]))"
    using nonfinal_error [of pre c x post rest] by blast
next
  assume "(k, f) \<in> set (formal c) \<and> ((Short f \<and> nm = take 1 k) \<or> nm = k)
      \<and> (\<forall>(k', f') \<in> set (formal c). (Short f' \<longrightarrow> k' \<noteq> [])
            \<and> ((Short f' \<and> nm = take 1 k') \<or> nm = k' \<longrightarrow> k' = k))"
  then show "accepts c nm = Return k"
    unfolding accepts_def using acceptsLoop_unique [of k f "formal c" nm] by blast
qed

text \<open>The theorem on the command with the flags \<open>all\<close> (boolean) and \<open>num\<close> (an
  \<open>int\<close>, 0), both short-eligible, as a root and as the child \<open>build\<close> of a root whose
  arguments are \<open>build -an 5\<close>: \<open>-an 5\<close> gives \<open>all = true\<close> and \<open>num = 5\<close>, and
  \<open>-ana\<close> fails at \<open>n\<close>.\<close>

theorem short_cluster_witness:
  "parseOne ((app_an False 0)\<lparr>args := [''-an'', ''5'', ''x'']\<rparr>) =
     ((app_an True 5)\<lparr>args := [''x'']\<rparr>, Res None True None)
   \<and> Parse [''app''] [app_an False 0] 0 [''-an'', ''5''] =
       ([(app_an True 5)\<lparr>parsed := True\<rparr>], [], Normal)
   \<and> Parse [''app''] tree_an 1 [] =
       ([app\<lparr>children := [1], args := [''build'', ''-an'', ''5'']\<rparr>,
         (app_an True 5)\<lparr>name := ''build'', parent := Some 0, parsed := True\<rparr>], [], Normal)
   \<and> args (app_an True 5) = []
   \<and> snd (parseOne ((app_an False 0)\<lparr>args := [''-ana'', ''5'']\<rparr>)) =
       Res None False (Some ''unexpected value for boolean flag: n'')
   \<and> accepts (app_an False 0) ''a'' = Return ''all''"
proof -
  let ?c = "app_an False 0"
  let ?d = "(app_an False 0)\<lparr>name := ''build'', parent := Some 0\<rparr>"
  have 1: "accepts ?c ''a'' = Return ''all''
      \<and> map_of (formal ?c) ''all'' = Some (aFlag False) \<and> Value_IsBool (Value (aFlag False))
      \<and> accepts ?c ''n'' = Return ''num''
      \<and> map_of (formal ?c) ''num'' = Some (nFlag 0) \<and> \<not> Value_IsBool (Value (nFlag 0))"
    by (simp add: fx fx2 accepts_def)
  have c1: "accepts ?d ''a'' = Return ''all''
      \<and> map_of (formal ?d) ''all'' = Some (aFlag False) \<and> Value_IsBool (Value (aFlag False))
      \<and> accepts ?d ''n'' = Return ''num''
      \<and> map_of (formal ?d) ''num'' = Some (nFlag 0) \<and> \<not> Value_IsBool (Value (nFlag 0))"
    by (simp add: fx fx2 accepts_def)
  have s: "deref [?c] 0 = Some ?c \<and> seedArgs [''app''] [?c] ?c [''-an'', ''5''] = Return [''-an'', ''5'']"
    by (simp add: deref_def seedArgs_def fx fx2)
  have cs: "deref tree_an 1 = Some ?d \<and> seedArgs [''app''] tree_an ?d [] = Return [''-an'', ''5'']"
    by (simp add: deref_def seedArgs_def tree_an_def fx fx2)
  have 2: "(\<forall>y \<in> set ''a''. of_char y < (128::nat) \<and> isBoolAt ?c [y] = Some True)
      \<and> of_char CHR ''n'' < (128::nat) \<and> isBoolAt ?c ''n'' = Some False \<and> ''a'' \<noteq> []
      \<and> \<not> ContainsEq (''a'' @ CHR ''n'' # ''a'') \<and> hd (''a'' @ ''n'') \<noteq> CHR ''-''"
    by (simp add: fx fx2 accepts_def isBoolAt_def ContainsEq_def)
  have 3: "(''all'', aFlag False) \<in> set (formal ?c)
      \<and> ((Short (aFlag False) \<and> ''a'' = take 1 ''all'') \<or> ''a'' = ''all'')
      \<and> (\<forall>(k', f') \<in> set (formal ?c). (Short f' \<longrightarrow> k' \<noteq> [])
            \<and> ((Short f' \<and> ''a'' = take 1 k') \<or> ''a'' = k' \<longrightarrow> k' = ''all''))"
    by (simp add: fx fx2)
  have v: "fst (Value_Set (Value (nFlag 0)) ''5'') = intValue 5"
    by (simp add: fx2 IntSize_def ParseInt_5)
  have e: "?c\<lparr>formal := setValue ''num'' (intValue 5)
                         (setValue ''all'' (boolValue True) (formal ?c)), args := as\<rparr>
           = (app_an True 5)\<lparr>args := as\<rparr>" for as
    by (simp add: fx fx2 setValue_def)
  have ce: "?d\<lparr>formal := setValue ''num'' (intValue 5)
                         (setValue ''all'' (boolValue True) (formal ?d)), args := [], parsed := True\<rparr>
           = (app_an True 5)\<lparr>name := ''build'', parent := Some 0, parsed := True\<rparr>"
    by (simp add: fx fx2 setValue_def)
  have a: "args (app_an True 5) = []" by (simp add: fx fx2)
  note t = short_cluster_last_takes_value
  from t [of ?c "''all''" "aFlag False" "''num''" "nFlag 0" "''5''" "[''x'']" "[?c]" 0 "[''app'']"
          "[''-an'', ''5'']" "''a''" "CHR ''n''" "''a''" "''all''" "aFlag False" "''a''"] 1 s 2 3
  have A: "parseOne (?c\<lparr>args := [''-an'', ''5'', ''x'']\<rparr>) =
             ((app_an True 5)\<lparr>args := [''x'']\<rparr>, Res None True None)"
    and B: "Parse [''app''] [?c] 0 [''-an'', ''5''] = ([(app_an True 5)\<lparr>parsed := True\<rparr>], [], Normal)"
    and D: "accepts ?c ''a'' = Return ''all''"
    using v e [of "[''x'']"] e [of "[]"] a by simp_all
  from t [of ?c _ _ _ _ _ "[''5'']" _ _ _ _ "''a''" "CHR ''n''" "''a''"] 2
  have E: "snd (parseOne (?c\<lparr>args := [''-ana'', ''5'']\<rparr>)) =
       Res None False (Some ''unexpected value for boolean flag: n'')"
    by simp
  from t [of ?d "''all''" "aFlag False" "''num''" "nFlag 0" "''5''" _ tree_an 1 "[''app'']" "[]"] c1 cs
  have C: "Parse [''app''] tree_an 1 [] =
       ([app\<lparr>children := [1], args := [''build'', ''-an'', ''5'']\<rparr>,
         (app_an True 5)\<lparr>name := ''build'', parent := Some 0, parsed := True\<rparr>], [], Normal)"
    using v ce by (simp add: tree_an_def)
  from A B C a E D show ?thesis by simp
qed


end
